theory Spec2Isabelle
  imports Complex_Main "HOL-Library.Sublist" "HOL-Library.Multiset"
begin

section \<open>The timed quiz session of \<open>app/@protected_routes/quiz/[id]/page.tsx\<close>\<close>

text \<open>
  The page component keeps the whole session in React state hooks. The embedding
  gathers the hooks into one record and turns every handler and effect of the
  component into a function from the state to the next state. JavaScript's
  \<open>undefined\<close> and \<open>null\<close> are \<open>None\<close>, \<open>NaN\<close> is \<open>None\<close> of an optional
  integer, and the strict equality \<open>===\<close> on optional strings is equality of
  \<open>string option\<close>.
\<close>

subsection \<open>Data model\<close>

text \<open>The bank as the service returns it (interfaces \<open>QuizContent\<close>, \<open>Week\<close>, \<open>Question\<close>).\<close>

datatype Question = Question (q_question: string) (q_options: "string list") (q_answer: "string list")

datatype Week = Week (week_name: string) (week_questions: "Question list")

datatype QuizContent = QuizContent (title: string) (weeks: "Week list")

text \<open>
  A question of the session (interface \<open>QuizQuestion\<close>). \<open>answer\<close> is \<open>q.answer[0]\<close>,
  which is \<open>undefined\<close> when the bank lists no answer; \<open>selectedAnswer\<close> and
  \<open>isMarked\<close> are absent until written.
\<close>

record QuizQuestion =
  question :: string
  options :: "string list"
  answer :: "string option"
  selectedAnswer :: "string option"
  isMarked :: "bool option"
  weekNumber :: string
  isExpanded :: bool

text \<open>The state hooks of \<open>QuizComponent\<close>, with their initial values.\<close>

record quiz_state =
  questions :: "QuizQuestion list"
  currentQuestionIndex :: nat
  timeRemaining :: int
  quizSubmitted :: bool
  score :: nat
  showWarning :: bool
  showOnlyIncorrect :: bool
  expandedQuestionIndex :: "nat option"
  showError :: bool
  isLoading :: bool
  fetchError :: "string option"

definition initial_state :: quiz_state where
  "initial_state =
     \<lparr>questions = [], currentQuestionIndex = 0, timeRemaining = 0, quizSubmitted = False,
      score = 0, showWarning = False, showOnlyIncorrect = False,
      expandedQuestionIndex = None, showError = False, isLoading = False,
      fetchError = None\<rparr>"

subsection \<open>The JavaScript library functions the component calls\<close>

text \<open>
  \<open>String.prototype.split\<close> with a non-empty separator: the pieces between the
  successive occurrences of the separator, found from left to right. The component
  only splits at the literals \<open>/quiz/\<close>, \<open>?\<close> and \<open>-\<close>.
\<close>

fun splitOn :: "string \<Rightarrow> string \<Rightarrow> string \<Rightarrow> string list" where
  "splitOn sep acc [] = [rev acc]"
| "splitOn sep acc (c # cs) =
     (if sep \<noteq> [] \<and> prefix sep (c # cs)
      then rev acc # splitOn sep [] (drop (length sep) (c # cs))
      else splitOn sep (c # acc) cs)"

definition split :: "string \<Rightarrow> string \<Rightarrow> string list" where
  "split str sep = splitOn sep [] str"

text \<open>\<open>String.prototype.substring\<close> for \<open>0 \<le> a \<le> b\<close>.\<close>

definition substring :: "string \<Rightarrow> nat \<Rightarrow> nat \<Rightarrow> string" where
  "substring str a b = take (b - a) (drop a str)"

text \<open>
  White space as \<open>parseInt\<close> and \<open>Number\<close> strip it. Strings are byte strings here,
  so these are the ASCII white space characters and line terminators.
\<close>

definition isWhiteSpace :: "char \<Rightarrow> bool" where
  "isWhiteSpace c \<longleftrightarrow>
     c \<in> set [CHR 0x20, CHR 0x09, CHR 0x0A, CHR 0x0B, CHR 0x0C, CHR 0x0D]"

definition digitValue :: "char \<Rightarrow> nat option" where
  "digitValue c =
     (let n = (of_char c :: nat) in
      if 48 \<le> n \<and> n \<le> 57 then Some (n - 48)
      else if 97 \<le> n \<and> n \<le> 122 then Some (n - 87)
      else if 65 \<le> n \<and> n \<le> 90 then Some (n - 55)
      else None)"

definition radixDigit :: "nat \<Rightarrow> char \<Rightarrow> nat option" where
  "radixDigit R c =
     (case digitValue c of None \<Rightarrow> None | Some d \<Rightarrow> if d < R then Some d else None)"

text \<open>The value of the longest prefix of radix-\<open>R\<close> digits.\<close>

fun parseDigits :: "nat \<Rightarrow> nat \<Rightarrow> string \<Rightarrow> nat" where
  "parseDigits R acc [] = acc"
| "parseDigits R acc (c # cs) =
     (case radixDigit R c of None \<Rightarrow> acc | Some d \<Rightarrow> parseDigits R (acc * R + d) cs)"

text \<open>
  \<open>parseInt(str)\<close> with no radix argument: leading white space is dropped, a sign
  is read, a \<open>0x\<close> or \<open>0X\<close> prefix selects radix 16, and the longest prefix of
  digits is the value; with no digit the result is \<open>NaN\<close> (\<open>None\<close>). The value
  is kept as an exact integer: a JavaScript number holds every integer up to
  \<open>2^53\<close> exactly, and rounding a larger one keeps its order to every smaller
  integer, which is all \<open>slice\<close> looks at.
\<close>

definition parseInt :: "string \<Rightarrow> int option" where
  "parseInt str =
     (let s = dropWhile isWhiteSpace str;
          (sign, s1) = (case s of
                          [] \<Rightarrow> (1 :: int, [])
                        | c # cs \<Rightarrow> if c = CHR ''-'' then (- 1, cs)
                                    else if c = CHR ''+'' then (1, cs) else (1, s));
          (R, s2) = (case s1 of
                       a # b # cs \<Rightarrow>
                         if a = CHR ''0'' \<and> (b = CHR ''x'' \<or> b = CHR ''X'')
                         then (16 :: nat, cs) else (10, s1)
                     | _ \<Rightarrow> (10, s1))
      in case s2 of
           [] \<Rightarrow> None
         | c # _ \<Rightarrow> (case radixDigit R c of
                       None \<Rightarrow> None
                     | Some _ \<Rightarrow> Some (sign * int (parseDigits R 0 s2))))"

text \<open>
  \<open>Number(str)\<close> on the week labels of the query string. White space is trimmed,
  the empty string is \<open>0\<close> and a decimal integer with an optional sign is its
  value. Every other string is \<open>NaN\<close> here; JavaScript gives a value to some
  of them (fractions, exponents, radix prefixes, \<open>Infinity\<close>), so the results
  below that depend on which weeks are selected are stated for decimal labels.
\<close>

definition Number :: "string \<Rightarrow> int option" where
  "Number str =
     (let s = rev (dropWhile isWhiteSpace (rev (dropWhile isWhiteSpace str)));
          (sign, ds) = (case s of
                          [] \<Rightarrow> (1 :: int, [])
                        | c # cs \<Rightarrow> if c = CHR ''-'' then (- 1, cs)
                                    else if c = CHR ''+'' then (1, cs) else (1, s))
      in if s = [] then Some 0
         else if ds \<noteq> [] \<and> list_all (\<lambda>c. radixDigit 10 c \<noteq> None) ds
         then Some (sign * int (parseDigits 10 0 ds))
         else None)"

text \<open>
  \<open>Array.prototype.slice(0, end)\<close>: a \<open>NaN\<close> end is \<open>0\<close>, a negative end counts
  from the length, and the end is clamped to the length.
\<close>

definition slice0 :: "'a list \<Rightarrow> int option \<Rightarrow> 'a list" where
  "slice0 xs end =
     (case end of
        None \<Rightarrow> []
      | Some e \<Rightarrow> if e < 0 then take (nat (int (length xs) + e)) xs else take (nat e) xs)"

text \<open>
  The random source. The comparator of the component only looks at the sign of
  \<open>Math.random() - 0.5\<close>, which is negative for half of the interval \<open>[0, 1)\<close>:
  one draw is one fair coin, \<open>True\<close> when \<open>Math.random() < 0.5\<close>. A source is the
  list of the draws to come, supplied as long as the draws made; drawing from an
  exhausted one gives \<open>False\<close>.
\<close>

type_synonym random_source = "bool list"

fun Math_random_below_half :: "random_source \<Rightarrow> bool \<times> random_source" where
  "Math_random_below_half [] = (False, [])"
| "Math_random_below_half (b # bs) = (b, bs)"

text \<open>
  \<open>Array.prototype.sort(comparefn)\<close> is the engine's: with a comparator that is
  not consistent the order of the result is implementation-defined. The sort is
  therefore a parameter of the model: any routine that calls the comparator,
  which here consumes the random source, and returns the rearranged array.
\<close>

type_synonym 'a comparefn = "'a \<Rightarrow> 'a \<Rightarrow> random_source \<Rightarrow> int \<times> random_source"

type_synonym 'a array_sort = "'a comparefn \<Rightarrow> 'a list \<Rightarrow> random_source \<Rightarrow> 'a list \<times> random_source"


text \<open>
  One such routine, the in-place insertion sort that engines run on short
  arrays: each element is moved left past the elements the comparator orders
  after it. \<open>sorted_rev\<close> is the sorted part of the array, last element first.
\<close>

fun insert_left :: "'a comparefn \<Rightarrow> 'a \<Rightarrow> 'a list \<Rightarrow> random_source \<Rightarrow> 'a list \<times> random_source" where
  "insert_left cmp x [] r = ([x], r)"
| "insert_left cmp x (p # ps) r =
     (case cmp p x r of
        (order, r') \<Rightarrow>
          if order > 0
          then (case insert_left cmp x ps r' of (ys, r'') \<Rightarrow> (p # ys, r''))
          else (x # p # ps, r'))"

fun insertion_loop :: "'a comparefn \<Rightarrow> 'a list \<Rightarrow> 'a list \<Rightarrow> random_source \<Rightarrow> 'a list \<times> random_source" where
  "insertion_loop cmp sorted_rev [] r = (rev sorted_rev, r)"
| "insertion_loop cmp sorted_rev (x # xs) r =
     (case insert_left cmp x sorted_rev r of
        (sorted_rev', r') \<Rightarrow> insertion_loop cmp sorted_rev' xs r')"

definition insertion_sort :: "'a array_sort" where
  "insertion_sort cmp xs r = insertion_loop cmp [] xs r"

subsection \<open>Session initialisation: \<open>fetchQuizContent\<close>\<close>

text \<open>
  What the effect reads from its surroundings: the path, the three query
  parameters (\<open>None\<close> when \<open>URLSearchParams.get\<close> returns \<open>null\<close>) and the
  response of the bank service, which is either not \<open>ok\<close>, with its status
  text, or the bank.
\<close>

datatype response = NotOk string | Ok QuizContent

record request =
  pathname :: string
  weeksParam :: "string option"
  numQuestionsParam :: "string option"
  timeParam :: "string option"
  bank_response :: response

text \<open>The errors the effect throws, and the message each carries.\<close>

datatype fetch_error =
  InvalidQuizUrl | CourseCodeNotFound | FetchFailed string | NoQuestionsAvailable

fun message :: "fetch_error \<Rightarrow> string" where
  "message InvalidQuizUrl = ''Invalid quiz URL format.''"
| "message CourseCodeNotFound = ''Course code not found in URL.''"
| "message (FetchFailed statusText) = ''Error fetching quiz content: '' @ statusText"
| "message NoQuestionsAvailable = ''No questions available for the selected weeks.''"

text \<open>A string in a condition is true when it is present and not empty.\<close>

fun truthy :: "string option \<Rightarrow> bool" where
  "truthy None = False"
| "truthy (Some s) = (s \<noteq> [])"

definition parse_weeks :: "string option \<Rightarrow> int option list" where
  "parse_weeks wp = (if truthy wp then map Number (split (the wp) ''-'') else [])"

definition parse_numQuestions :: "string option \<Rightarrow> int option" where
  "parse_numQuestions np = (if truthy np then parseInt (the np) else Some 0)"

text \<open>Sums and products of numbers: \<open>NaN\<close> in an operand gives \<open>NaN\<close>.\<close>

fun num_times :: "int option \<Rightarrow> int \<Rightarrow> int option" where
  "num_times None k = None"
| "num_times (Some a) k = Some (a * k)"

fun num_plus :: "int option \<Rightarrow> int option \<Rightarrow> int option" where
  "num_plus (Some a) (Some b) = Some (a + b)"
| "num_plus _ _ = None"

definition parse_timeSeconds :: "string option \<Rightarrow> int option" where
  "parse_timeSeconds tp =
     (if truthy tp
      then num_plus
             (num_plus (num_times (parseInt (substring (the tp) 0 2)) 3600)
                       (num_times (parseInt (substring (the tp) 2 4)) 60))
             (parseInt (substring (the tp) 4 6))
      else Some 0)"

text \<open>\<open>timeSeconds > 0 ? timeSeconds : 30 * 60\<close>; a comparison with \<open>NaN\<close> is false.\<close>

fun initial_time :: "int option \<Rightarrow> int" where
  "initial_time None = 30 * 60"
| "initial_time (Some t) = (if t > 0 then t else 30 * 60)"

definition to_quiz_question :: "Week \<Rightarrow> Question \<Rightarrow> QuizQuestion" where
  "to_quiz_question week q =
     \<lparr>question = q_question q, options = q_options q,
      answer = (case q_answer q of [] \<Rightarrow> None | a # _ \<Rightarrow> Some a),
      selectedAnswer = None, isMarked = None,
      weekNumber = week_name week, isExpanded = False\<rparr>"

text \<open>\<open>weeks.includes\<close> compares with SameValueZero, under which \<open>NaN\<close> is itself.\<close>

definition allQuestions :: "int option list \<Rightarrow> QuizContent \<Rightarrow> QuizQuestion list" where
  "allQuestions wks data =
     concat (map (\<lambda>week. map (to_quiz_question week) (week_questions week))
                 (filter (\<lambda>week. parseInt (week_name week) \<in> set wks) (weeks data)))"

definition random_comparator :: "'a comparefn" where
  "random_comparator a b r =
     (case Math_random_below_half r of (below, r') \<Rightarrow> (if below then - 1 else 1, r'))"

definition shuffledQuestions :: "'a array_sort \<Rightarrow> random_source \<Rightarrow> 'a list \<Rightarrow> 'a list" where
  "shuffledQuestions srt r qs = fst (srt random_comparator qs r)"

text \<open>The \<open>catch\<close> and \<open>finally\<close> blocks.\<close>

definition fail_with :: "fetch_error \<Rightarrow> quiz_state \<Rightarrow> quiz_state" where
  "fail_with e s = s\<lparr>fetchError := Some (message e), isLoading := False\<rparr>"

text \<open>The course code of the path, or the error thrown for a path without one.\<close>

definition course_code :: "string \<Rightarrow> fetch_error + string" where
  "course_code path =
     (let pathParts = split path ''/quiz/''
      in if length pathParts < 2 then Inl InvalidQuizUrl
         else
           let courseCode = hd (split (pathParts ! 1) ''?'')
           in if courseCode = [] then Inl CourseCodeNotFound else Inr courseCode)"

definition fetchQuizContent ::
    "QuizQuestion array_sort \<Rightarrow> random_source \<Rightarrow> request \<Rightarrow> quiz_state \<Rightarrow> quiz_state" where
  "fetchQuizContent srt r req s0 =
     (let s1 = s0\<lparr>isLoading := True, fetchError := None\<rparr>
      in case course_code (pathname req) of
           Inl e \<Rightarrow> fail_with e s1
         | Inr courseCode \<Rightarrow>
             let wks = parse_weeks (weeksParam req);
                 numQuestions = parse_numQuestions (numQuestionsParam req);
                 timeSeconds = parse_timeSeconds (timeParam req);
                 s2 = s1\<lparr>timeRemaining := initial_time timeSeconds\<rparr>
             in (case bank_response req of
                   NotOk statusText \<Rightarrow> fail_with (FetchFailed statusText) s2
                 | Ok data \<Rightarrow>
                     let candidates = allQuestions wks data
                     in if length candidates = 0 then fail_with NoQuestionsAvailable s2
                        else s2\<lparr>questions :=
                                    slice0 (shuffledQuestions srt r candidates) numQuestions,
                                  isLoading := False\<rparr>))"

subsection \<open>Answering, submission and the timer\<close>

text \<open>
  A handler that reads \<open>questions[currentQuestionIndex]\<close> throws a \<open>TypeError\<close>
  when the index is outside the array. \<open>Inl\<close> carries the exception together
  with the state updates made before it was thrown.
\<close>

datatype js_exception = TypeError

type_synonym handler_result = "js_exception \<times> quiz_state + quiz_state"

definition handleAnswerSelect :: "string \<Rightarrow> quiz_state \<Rightarrow> handler_result" where
  "handleAnswerSelect a s =
     (let s1 = s\<lparr>showError := False\<rparr>; i = currentQuestionIndex s
      in if i < length (questions s)
         then Inr (s1\<lparr>questions := (questions s)[i := (questions s ! i)\<lparr>selectedAnswer := Some a\<rparr>]\<rparr>)
         else Inl (TypeError, s1))"

definition correctAnswers :: "QuizQuestion list \<Rightarrow> nat" where
  "correctAnswers qs = length (filter (\<lambda>q. selectedAnswer q = answer q) qs)"

definition submitQuiz :: "quiz_state \<Rightarrow> quiz_state" where
  "submitQuiz s = s\<lparr>score := correctAnswers (questions s), quizSubmitted := True\<rparr>"

definition goToNextQuestion :: "quiz_state \<Rightarrow> handler_result" where
  "goToNextQuestion s =
     (let i = currentQuestionIndex s
      in if \<not> i < length (questions s) then Inl (TypeError, s)
         else
           let currentQuestion = questions s ! i
           in if \<not> truthy (selectedAnswer currentQuestion) then Inr (s\<lparr>showError := True\<rparr>)
              else
                let s1 = s\<lparr>showError := False\<rparr>
                in if int i = int (length (questions s)) - 1 then Inr (submitQuiz s1)
                   else Inr (s1\<lparr>currentQuestionIndex := i + 1\<rparr>))"

definition toggleQuestionExpansion :: "nat \<Rightarrow> quiz_state \<Rightarrow> quiz_state" where
  "toggleQuestionExpansion index s =
     (if quizSubmitted s
      then s\<lparr>expandedQuestionIndex :=
               (if expandedQuestionIndex s = Some index then None else Some index)\<rparr>
      else s)"

text \<open>The effect that submits when the time is up.\<close>

definition timeUpEffect :: "quiz_state \<Rightarrow> quiz_state" where
  "timeUpEffect s =
     (if timeRemaining s = 0 \<and> \<not> quizSubmitted s \<and> length (questions s) > 0
      then submitQuiz s else s)"

text \<open>
  One firing of the interval. The effect installs the interval only while
  \<open>timeRemaining > 0 && !quizSubmitted\<close> and clears it otherwise, so a firing
  outside that condition does not happen; inside it the updater of
  \<open>setTimeRemaining\<close> runs on the current value. The \<open>submitQuiz\<close> it calls
  is the closure of the render that installed the interval; the answers are
  written into the question objects in place, so the questions it reads carry
  the answers given since.
\<close>

definition tick :: "quiz_state \<Rightarrow> quiz_state" where
  "tick s =
     (if timeRemaining s > 0 \<and> \<not> quizSubmitted s
      then
        let prev = timeRemaining s
        in if prev \<le> 1 then (submitQuiz s)\<lparr>timeRemaining := 0\<rparr>
           else (if prev = 30 then s\<lparr>showWarning := True\<rparr> else s)\<lparr>timeRemaining := prev - 1\<rparr>
      else s)"

subsection \<open>The review screen\<close>

definition setShowOnlyIncorrect :: "bool \<Rightarrow> quiz_state \<Rightarrow> quiz_state" where
  "setShowOnlyIncorrect b s = s\<lparr>showOnlyIncorrect := b\<rparr>"

definition displayedQuestions :: "quiz_state \<Rightarrow> QuizQuestion list" where
  "displayedQuestions s =
     (if showOnlyIncorrect s
      then filter (\<lambda>q. selectedAnswer q \<noteq> answer q) (questions s)
      else questions s)"

subsection \<open>The score screen\<close>

text \<open>
  \<open>score / questions.length * 100\<close> is computed in double precision. A finite
  double is represented by the rational it denotes, and \<open>to_double\<close> rounds a
  rational to the nearest double, ties to the even significand: with
  \<open>2^e \<le> |x| < 2^(e+1)\<close> the doubles around \<open>x\<close> are the multiples of
  \<open>2^(e-52)\<close>. Exponents are not bounded, which is exact from \<open>2^-1022\<close> up to
  \<open>2^1024\<close>; the numbers of this screen lie between \<open>2^-32\<close> and \<open>2^39\<close>, as
  an array has fewer than \<open>2^32\<close> elements.
\<close>

function log2 :: "int \<Rightarrow> int" where
  "log2 n = (if n < 2 then 0 else 1 + log2 (n div 2))"
  by pat_completeness auto
termination
  by (relation "measure nat") auto

declare log2.simps [simp del]

text \<open>For \<open>x > 0\<close>, the exponent \<open>e\<close> with \<open>2^e \<le> x < 2^(e+1)\<close>.\<close>

definition binade :: "rat \<Rightarrow> int" where
  "binade x =
     (case quotient_of x of
        (p, q) \<Rightarrow>
          let e0 = log2 p - log2 q
          in if 2 powi e0 \<le> x then e0 else e0 - 1)"

definition round_half_even :: "rat \<Rightarrow> int" where
  "round_half_even x =
     (let f = \<lfloor>x\<rfloor>; d = x - of_int f
      in if d < 1 / 2 then f
         else if 1 / 2 < d then f + 1
         else if even f then f else f + 1)"

definition to_double :: "rat \<Rightarrow> rat" where
  "to_double x =
     (if x = 0 then 0
      else
        let a = \<bar>x\<bar>; ulp = 2 powi (binade a - 52)
        in sgn x * of_int (round_half_even (a / ulp)) * ulp)"

text \<open>A number of the score screen: a finite double, \<open>Infinity\<close> or \<open>NaN\<close>.\<close>

datatype number = Num rat | Infinity | NaN

text \<open>\<open>score / questions.length\<close>, of two array lengths.\<close>

definition divide_lengths :: "nat \<Rightarrow> nat \<Rightarrow> number" where
  "divide_lengths a b =
     (if b = 0 then (if a = 0 then NaN else Infinity)
      else Num (to_double (of_nat a / of_nat b)))"

fun times_100 :: "number \<Rightarrow> number" where
  "times_100 (Num x) = Num (to_double (x * 100))"
| "times_100 Infinity = Infinity"
| "times_100 NaN = NaN"

text \<open>
  \<open>toFixed(1)\<close> prints the decimal \<open>n / 10\<close> for the integer \<open>n\<close> with
  \<open>n / 10 - x\<close> closest to zero, the larger \<open>n\<close> of two. The printed string is
  represented by the decimal it spells; \<open>Infinity\<close> and \<open>NaN\<close> print as such.
\<close>

fun toFixed_1 :: "number \<Rightarrow> number" where
  "toFixed_1 (Num x) = Num (sgn x * of_int \<lfloor>10 * \<bar>x\<bar> + 1 / 2\<rfloor> / 10)"
| "toFixed_1 Infinity = Infinity"
| "toFixed_1 NaN = NaN"






subsection \<open>Runs of a session\<close>

text \<open>
  The events of a session after its initialisation: a firing of the interval,
  a run of the time-up effect, and the user's actions. An exception thrown by
  a handler leaves the updates made before it.
\<close>

datatype event =
  Tick | TimeUp | AnswerSelect string | NextQuestion | ToggleExpansion nat
| SetShowOnlyIncorrect bool

fun state_after :: "handler_result \<Rightarrow> quiz_state" where
  "state_after (Inl (e, s)) = s"
| "state_after (Inr s) = s"

fun step :: "event \<Rightarrow> quiz_state \<Rightarrow> quiz_state" where
  "step Tick s = tick s"
| "step TimeUp s = timeUpEffect s"
| "step (AnswerSelect a) s = state_after (handleAnswerSelect a s)"
| "step NextQuestion s = state_after (goToNextQuestion s)"
| "step (ToggleExpansion i) s = toggleQuestionExpansion i s"
| "step (SetShowOnlyIncorrect b) s = setShowOnlyIncorrect b s"

fun run :: "quiz_state \<Rightarrow> event list \<Rightarrow> quiz_state" where
  "run s [] = s"
| "run s (e # es) = run (step e s) es"

text \<open>Whether a firing of the interval in state \<open>s\<close> calls \<open>setShowWarning(true)\<close>.\<close>

definition warns :: "quiz_state \<Rightarrow> bool" where
  "warns s \<longleftrightarrow>
     timeRemaining s > 0 \<and> \<not> quizSubmitted s \<and> \<not> timeRemaining s \<le> 1 \<and> timeRemaining s = 30"

text \<open>The number of calls of \<open>setShowWarning(true)\<close> along a run.\<close>

fun warning_calls :: "quiz_state \<Rightarrow> event list \<Rightarrow> nat" where
  "warning_calls s [] = 0"
| "warning_calls s (e # es) =
     (if e = Tick \<and> warns s then 1 else 0) + warning_calls (step e s) es"

subsection \<open>Vocabulary of the specification\<close>

text \<open>
  The inputs the specification calls valid, written after its words: a decimal
  numeral and its value, a time budget of six digits \<open>HHMMSS\<close> with the seconds
  it stands for, and week labels separated by dashes.
\<close>

definition decimal_digit :: "char \<Rightarrow> bool" where
  "decimal_digit c \<longleftrightarrow> 48 \<le> (of_char c :: nat) \<and> (of_char c :: nat) \<le> 57"

definition digit_of :: "char \<Rightarrow> int" where
  "digit_of c = int (of_char c) - 48"

definition decimal_value :: "string \<Rightarrow> int" where
  "decimal_value ds = foldl (\<lambda>n c. 10 * n + digit_of c) 0 ds"

definition decimal_numeral :: "string \<Rightarrow> bool" where
  "decimal_numeral ds \<longleftrightarrow> ds \<noteq> [] \<and> list_all decimal_digit ds"

definition HHMMSS :: "string \<Rightarrow> bool" where
  "HHMMSS t \<longleftrightarrow> length t = 6 \<and> list_all decimal_digit t"

definition HHMMSS_seconds :: "string \<Rightarrow> int" where
  "HHMMSS_seconds t =
     decimal_value (take 2 t) * 3600 + decimal_value (take 2 (drop 2 t)) * 60
     + decimal_value (take 2 (drop 4 t))"

definition expected_time :: "string option \<Rightarrow> int" where
  "expected_time tp =
     (case tp of
        None \<Rightarrow> 1800
      | Some t \<Rightarrow> if 0 < HHMMSS_seconds t then HHMMSS_seconds t else 1800)"


text \<open>
  The number of candidates: the questions of the weeks of the bank whose numeric
  label is one of the requested weeks.
\<close>

definition candidateCount :: "string option \<Rightarrow> QuizContent \<Rightarrow> nat" where
  "candidateCount wp data =
     (case wp of
        None \<Rightarrow> 0
      | Some w \<Rightarrow>
          sum_list (map (\<lambda>week. length (week_questions week))
            (filter (\<lambda>week. list_ex (\<lambda>label. parseInt (week_name week) = Some (decimal_value label))
                                    (split w ''-''))
                    (weeks data))))"

text \<open>
  The random sources of \<open>k\<close> draws. Each is as likely as any other, so the
  probability that the shuffle of \<open>qs\<close> comes out as the ordering \<open>p\<close> is
  \<open>ordering_count srt k qs p / 2 ^ k\<close>.
\<close>

definition all_sources :: "nat \<Rightarrow> random_source list" where
  "all_sources k = List.n_lists k [True, False]"

definition ordering_count :: "'a array_sort \<Rightarrow> nat \<Rightarrow> 'a list \<Rightarrow> 'a list \<Rightarrow> nat" where
  "ordering_count srt k qs p =
     length (filter (\<lambda>r. shuffledQuestions srt r qs = p) (all_sources k))"

subsection \<open>Example sessions\<close>

text \<open>
  The scenario of the specification: a bank with three questions in week 1 and
  two in week 2, requested with \<open>weeks=1-2\<close>, \<open>numQ=4\<close> and \<open>time=003000\<close>, and
  a random source of ten draws, as many as insertion sort compares on five
  elements at most.
\<close>

definition example_bank :: QuizContent where
  "example_bank =
     QuizContent ''Networks''
       [Week ''1'' [Question ''q1'' [''a'', ''b''] [''a''],
                    Question ''q2'' [''a'', ''b''] [''b''],
                    Question ''q3'' [''a'', ''b''] [''a'']],
        Week ''2'' [Question ''q4'' [''c'', ''d''] [''c''],
                    Question ''q5'' [''c'', ''d''] [''d'']]]"

definition example_request :: request where
  "example_request =
     \<lparr>pathname = ''/quiz/CS101'', weeksParam = Some ''1-2'', numQuestionsParam = Some ''4'',
      timeParam = Some ''003000'', bank_response = Ok example_bank\<rparr>"

definition example_source :: random_source where
  "example_source = [True, False, True, True, False, False, True, False, True, True]"



definition countdown_example :: quiz_state where
  "countdown_example =
     initial_state\<lparr>questions := map (to_quiz_question (Week ''1'' []))
                                   [Question ''q1'' [''a'', ''b''] [''a''],
                                    Question ''q2'' [''a'', ''b''] [''b'']],
                   timeRemaining := 31\<rparr>"


section \<open>Properties\<close>

subsection \<open>Parsing the query parameters\<close>

lemma decimal_digit_facts:
  assumes "decimal_digit c"
  shows "\<not> isWhiteSpace c" and "c \<noteq> CHR ''-''" and "c \<noteq> CHR ''+''"
    and "c \<noteq> CHR ''x''" and "c \<noteq> CHR ''X''"
    and "radixDigit 10 c = Some (of_char c - 48)"
    and "int (of_char c - 48) = digit_of c"
  using assms
  by (auto simp add: decimal_digit_def isWhiteSpace_def radixDigit_def digitValue_def Let_def
        digit_of_def)

lemma parseDigits_decimal:
  "list_all decimal_digit ds \<Longrightarrow>
     int (parseDigits 10 acc ds) = foldl (\<lambda>n c. 10 * n + digit_of c) (int acc) ds"
proof (induction ds arbitrary: acc)
  case Nil
  then show ?case by simp
next
  case (Cons c ds)
  then have c: "decimal_digit c" and ds: "list_all decimal_digit ds" by simp_all
  show ?case
    using Cons.IH [OF ds, of "acc * 10 + (of_char c - 48)"] decimal_digit_facts(6,7) [OF c]
    by (simp add: mult.commute)
qed

lemma parseInt_decimal:
  assumes "decimal_numeral ds"
  shows "parseInt ds = Some (decimal_value ds)"
proof -
  from assms obtain c cs where ds: "ds = c # cs" and c: "decimal_digit c"
    and cs: "list_all decimal_digit cs"
    by (cases ds) (auto simp add: decimal_numeral_def)
  have all: "list_all decimal_digit (c # cs)" using c cs by simp
  have no_prefix: "(case c # cs of
                      a # b # cs' \<Rightarrow>
                        if a = CHR ''0'' \<and> (b = CHR ''x'' \<or> b = CHR ''X'')
                        then (16 :: nat, cs') else (10, c # cs)
                    | _ \<Rightarrow> (10, c # cs)) = (10, c # cs)"
  proof (cases cs)
    case Nil
    then show ?thesis by simp
  next
    case (Cons b cs')
    then have "decimal_digit b" using cs by simp
    from decimal_digit_facts(4,5) [OF this] show ?thesis using Cons by simp
  qed
  show ?thesis
    using decimal_digit_facts [OF c] no_prefix parseDigits_decimal [OF all, of 0]
    by (simp add: parseInt_def ds Let_def decimal_value_def del: parseDigits.simps)
qed

lemma parse_timeSeconds_HHMMSS:
  assumes "HHMMSS t"
  shows "parse_timeSeconds (Some t) = Some (HHMMSS_seconds t)"
proof -
  from assms have len: "length t = 6" and all: "list_all decimal_digit t"
    by (simp_all add: HHMMSS_def)
  have ne: "t \<noteq> []" using len by auto
  have a: "decimal_numeral (take 2 t)" "decimal_numeral (take 2 (drop 2 t))"
    "decimal_numeral (take 2 (drop 4 t))"
    using len all
    by (auto simp add: decimal_numeral_def list_all_iff dest: in_set_takeD in_set_dropD)
  show ?thesis
    using ne a
    by (simp add: parse_timeSeconds_def substring_def parseInt_decimal HHMMSS_seconds_def)
qed

lemma timeRemaining_fetchQuizContent:
  assumes "course_code (pathname req) = Inr code"
  shows "timeRemaining (fetchQuizContent srt r req s0) =
           initial_time (parse_timeSeconds (timeParam req))"
  using assms
  by (simp add: fetchQuizContent_def Let_def fail_with_def split: response.split)

text \<open>
  Claim C6. Once the path has given a course code, the initial \<open>timeRemaining\<close>
  is \<open>H * 3600 + M * 60 + S\<close> of a six-digit time parameter \<open>HHMMSS\<close> when that
  value is positive, and \<open>1800\<close> when the parameter is absent or stands for zero
  seconds. It is set before the bank is requested, so it is the same whether the
  request and the selection succeed or not.
\<close>

theorem initial_time_budget:
  assumes "course_code (pathname req) = Inr code"
    and "timeParam req = None \<or> (\<exists>t. timeParam req = Some t \<and> HHMMSS t)"
  shows "timeRemaining (fetchQuizContent srt r req s0) = expected_time (timeParam req)"
proof -
  from assms(2) have "initial_time (parse_timeSeconds (timeParam req)) = expected_time (timeParam req)"
  proof
    assume "timeParam req = None"
    then show ?thesis by (simp add: parse_timeSeconds_def expected_time_def)
  next
    assume "\<exists>t. timeParam req = Some t \<and> HHMMSS t"
    then obtain t where t: "timeParam req = Some t" "HHMMSS t" by blast
    then show ?thesis
      by (simp add: parse_timeSeconds_HHMMSS expected_time_def)
  qed
  with timeRemaining_fetchQuizContent [OF assms(1)] show ?thesis by simp
qed

lemma course_code_example: "course_code ''/quiz/CS101'' = Inr ''CS101''"
  by (simp add: course_code_def split_def Let_def)

text \<open>
  The scenario of the specification: time \<open>003000\<close> gives 1800 seconds; \<open>013005\<close>
  gives 5405; no time parameter gives 1800.
\<close>

theorem initial_time_budget_witness:
  "course_code (pathname example_request) = Inr ''CS101''
   \<and> (\<exists>t. timeParam example_request = Some t \<and> HHMMSS t)
   \<and> timeRemaining (fetchQuizContent insertion_sort example_source example_request initial_state) = 1800
   \<and> timeRemaining (fetchQuizContent insertion_sort example_source
         (example_request\<lparr>timeParam := Some ''013005''\<rparr>) initial_state) = 5405
   \<and> timeRemaining (fetchQuizContent insertion_sort example_source
         (example_request\<lparr>timeParam := None\<rparr>) initial_state) = 1800"
proof -
  have c: "course_code (pathname example_request) = Inr ''CS101''"
    by (simp add: example_request_def course_code_example)
  have t: "HHMMSS ''003000''" "HHMMSS ''013005''"
    by (simp_all add: HHMMSS_def decimal_digit_def)
  have v: "expected_time (Some ''003000'') = 1800" "expected_time (Some ''013005'') = 5405"
    by (simp_all add: expected_time_def HHMMSS_seconds_def decimal_value_def digit_of_def)
  show ?thesis
    using c t v
      initial_time_budget [of example_request "''CS101''" insertion_sort example_source initial_state]
      initial_time_budget [of "example_request\<lparr>timeParam := Some ''013005''\<rparr>" "''CS101''"
        insertion_sort example_source initial_state]
      initial_time_budget [of "example_request\<lparr>timeParam := None\<rparr>" "''CS101''"
        insertion_sort example_source initial_state]
    by (simp add: example_request_def expected_time_def)
qed

subsection \<open>Selecting and sampling the questions\<close>





lemma allQuestions_no_weeks: "allQuestions [] data = []"
  by (simp add: allQuestions_def)

text \<open>
  Claim C9. Without a \<open>weeks\<close> parameter the requested weeks are the empty
  list, no week of the bank passes the filter, and initialisation ends with the
  error for an empty selection, leaving the questions of the state as they were,
  whatever the bank holds.
\<close>

theorem weeks_absent_empty_selection:
  assumes "course_code (pathname req) = Inr code"
    and "bank_response req = Ok data"
    and "weeksParam req = None"
  shows "parse_weeks (weeksParam req) = []
         \<and> candidateCount (weeksParam req) data = 0
         \<and> allQuestions (parse_weeks (weeksParam req)) data = []
         \<and> fetchError (fetchQuizContent srt r req s0)
             = Some ''No questions available for the selected weeks.''
         \<and> questions (fetchQuizContent srt r req s0) = questions s0"
  using assms
  by (simp add: fetchQuizContent_def Let_def fail_with_def parse_weeks_def allQuestions_no_weeks
        candidateCount_def)

lemma example_bank_every_week: "list_all (\<lambda>w. week_questions w \<noteq> []) (weeks example_bank)"
  by (simp add: example_bank_def)

text \<open>The bank of the example has questions in each of its weeks.\<close>

theorem weeks_absent_empty_selection_witness:
  "course_code (pathname (example_request\<lparr>weeksParam := None\<rparr>)) = Inr ''CS101''
   \<and> bank_response (example_request\<lparr>weeksParam := None\<rparr>) = Ok example_bank
   \<and> weeksParam (example_request\<lparr>weeksParam := None\<rparr>) = None
   \<and> list_all (\<lambda>w. week_questions w \<noteq> []) (weeks example_bank)
   \<and> fetchError (fetchQuizContent insertion_sort example_source (example_request\<lparr>weeksParam := None\<rparr>)
        initial_state) = Some ''No questions available for the selected weeks.''
   \<and> questions (fetchQuizContent insertion_sort example_source (example_request\<lparr>weeksParam := None\<rparr>)
        initial_state) = []"
proof -
  let ?req = "example_request\<lparr>weeksParam := None\<rparr>"
  have a: "course_code (pathname ?req) = Inr ''CS101''"
    by (simp add: example_request_def course_code_example)
  have b: "bank_response ?req = Ok example_bank" by (simp add: example_request_def)
  have c: "weeksParam ?req = None" by simp
  show ?thesis
    using a b c example_bank_every_week
      weeks_absent_empty_selection [OF a b c, of insertion_sort example_source initial_state]
    by (simp add: initial_state_def)
qed














subsection \<open>The shuffle\<close>

lemma length_all_sources: "length (all_sources k) = 2 ^ k"
  by (simp add: all_sources_def length_n_lists numeral_2_eq_2)

lemma power_two_mod_three: "(2::nat) ^ k mod 3 = 1 \<or> (2::nat) ^ k mod 3 = 2"
proof (induction k)
  case 0
  then show ?case by simp
next
  case (Suc k)
  have "(2::nat) ^ Suc k mod 3 = (2 * (2 ^ k mod 3)) mod 3"
    by (simp add: mod_mult_right_eq)
  with Suc show ?case by auto
qed

lemma three_not_dvd_power_two: "\<not> (3::nat) dvd 2 ^ k"
  using power_two_mod_three [of k] by (auto simp add: dvd_eq_mod_eq_0)

text \<open>
  Claim C1 fails on the code. The candidates are shuffled by sorting with a
  comparator that answers at random. Whatever the sort routine and however many
  draws \<open>k\<close> it is given, the number of sources that lead to an ordering \<open>p\<close>
  of three or more candidates, times \<open>n!\<close>, is never \<open>2 ^ k\<close>: no ordering has
  the probability \<open>1 / n!\<close> of a uniform shuffle.
\<close>

theorem shuffle_not_uniform:
  assumes "3 \<le> length qs"
  shows "fact (length qs) * ordering_count srt k qs p \<noteq> 2 ^ k"
proof
  assume eq: "fact (length qs) * ordering_count srt k qs p = 2 ^ k"
  have "(3::nat) dvd fact (length qs)" using assms by (intro dvd_fact) auto
  then have "(3::nat) dvd fact (length qs) * ordering_count srt k qs p" by simp
  with eq three_not_dvd_power_two [of k] show False by simp
qed

text \<open>
  Under insertion sort, of the eight sources of three draws two leave three
  candidates in their order and one reverses them.
\<close>

theorem shuffle_not_uniform_witness:
  "3 \<le> length [1, 2, 3 :: nat]
   \<and> ordering_count insertion_sort 3 [1, 2, 3 :: nat] [1, 2, 3] = 2
   \<and> ordering_count insertion_sort 3 [1, 2, 3 :: nat] [3, 2, 1] = 1
   \<and> fact (length [1, 2, 3 :: nat]) * ordering_count insertion_sort 3 [1, 2, 3 :: nat] [1, 2, 3]
       \<noteq> 2 ^ 3"
proof -
  have a: "ordering_count insertion_sort 3 [1, 2, 3 :: nat] [1, 2, 3] = 2" by code_simp
  have b: "ordering_count insertion_sort 3 [1, 2, 3 :: nat] [3, 2, 1] = 1" by code_simp
  show ?thesis
    using a b shuffle_not_uniform [of "[1, 2, 3 :: nat]" insertion_sort 3 "[1, 2, 3]"]
    by simp
qed

subsection \<open>Scoring and review\<close>

lemma correctAnswers_append:
  "correctAnswers (xs @ ys) = correctAnswers xs + correctAnswers ys"
  by (simp add: correctAnswers_def)

text \<open>
  Claim C10. A bank question with no answer gives a session question whose
  \<open>answer\<close> is unset; left unanswered, it is counted by the score, as the
  unset \<open>selectedAnswer\<close> equals the unset \<open>answer\<close>.
\<close>

theorem empty_answer_counts_as_correct:
  assumes "q_answer bq = []"
    and "questions s = pre @ to_quiz_question week bq # post"
  shows "answer (to_quiz_question week bq) = None
         \<and> selectedAnswer (to_quiz_question week bq) = None
         \<and> score (submitQuiz s) = correctAnswers pre + 1 + correctAnswers post"
  using assms
  by (simp add: to_quiz_question_def submitQuiz_def correctAnswers_def)

text \<open>A session of one such question, unanswered, scores 1.\<close>

theorem empty_answer_counts_as_correct_witness:
  "q_answer (Question ''q'' [''a'', ''b''] []) = []
   \<and> questions (initial_state\<lparr>questions :=
        [to_quiz_question (Week ''1'' []) (Question ''q'' [''a'', ''b''] [])]\<rparr>)
       = [] @ to_quiz_question (Week ''1'' []) (Question ''q'' [''a'', ''b''] []) # []
   \<and> score (submitQuiz (initial_state\<lparr>questions :=
        [to_quiz_question (Week ''1'' []) (Question ''q'' [''a'', ''b''] [])]\<rparr>)) = 1"
  using empty_answer_counts_as_correct [of "Question ''q'' [''a'', ''b''] []"
      "initial_state\<lparr>questions :=
        [to_quiz_question (Week ''1'' []) (Question ''q'' [''a'', ''b''] [])]\<rparr>"
      "[]" "Week ''1'' []" "[]"]
  by (simp add: correctAnswers_def)

lemma length_filter_complement:
  "length (filter (\<lambda>x. \<not> P x) xs) = length xs - length (filter P xs)"
  using sum_length_filter_compl [of P xs] by simp

text \<open>
  Claim C7. With the filter off the review shows every question; with the
  filter on it shows the questions whose \<open>selectedAnswer\<close> differs from
  \<open>answer\<close>, each once and in the order of the session, so as many as the
  session has questions that do not count for the score.
\<close>

theorem review_filter:
  "displayedQuestions (setShowOnlyIncorrect False s) = questions s
   \<and> displayedQuestions (setShowOnlyIncorrect True s)
       = filter (\<lambda>q. selectedAnswer q \<noteq> answer q) (questions s)
   \<and> subseq (displayedQuestions (setShowOnlyIncorrect True s)) (questions s)
   \<and> set (displayedQuestions (setShowOnlyIncorrect True s))
       = {q \<in> set (questions s). selectedAnswer q \<noteq> answer q}
   \<and> length (displayedQuestions (setShowOnlyIncorrect True s))
       = length (questions s) - correctAnswers (questions s)"
  by (simp add: displayedQuestions_def setShowOnlyIncorrect_def correctAnswers_def
        length_filter_complement)

subsection \<open>The countdown\<close>

lemmas step_defs =
  tick_def timeUpEffect_def submitQuiz_def handleAnswerSelect_def goToNextQuestion_def
  toggleQuestionExpansion_def setShowOnlyIncorrect_def Let_def

lemma showWarning_step: "showWarning s \<Longrightarrow> showWarning (step e s)"
  by (cases e) (simp_all add: step_defs)

lemma timeRemaining_step: "timeRemaining (step e s) \<le> timeRemaining s"
  by (cases e) (simp_all add: step_defs)

lemma timeRemaining_step_other: "e \<noteq> Tick \<Longrightarrow> timeRemaining (step e s) = timeRemaining s"
  by (cases e) (simp_all add: step_defs)

lemma tick_showWarning: "showWarning (tick s) \<longleftrightarrow> showWarning s \<or> warns s"
  by (auto simp add: tick_def warns_def submitQuiz_def Let_def)

lemma tick_crossing:
  assumes "30 \<le> timeRemaining s" and "timeRemaining (tick s) < 30"
  shows "warns s" and "showWarning (tick s)"
  using assms by (auto simp add: tick_def warns_def Let_def split: if_splits)

lemma tick_warns: "warns s \<Longrightarrow> timeRemaining (tick s) = 29 \<and> showWarning (tick s)"
  by (simp add: tick_def warns_def Let_def)

lemma showWarning_run: "showWarning s \<Longrightarrow> showWarning (run s es)"
  by (induction es arbitrary: s) (simp_all add: showWarning_step)

lemma warning_calls_below: "timeRemaining s < 30 \<Longrightarrow> warning_calls s es = 0"
proof (induction es arbitrary: s)
  case Nil
  then show ?case by simp
next
  case (Cons e es)
  have "timeRemaining (step e s) < 30"
    using timeRemaining_step [of e s] Cons.prems by simp
  then have "warning_calls (step e s) es = 0" by (rule Cons.IH)
  moreover have "\<not> warns s" using Cons.prems by (simp add: warns_def)
  ultimately show ?case by simp
qed

lemma warning_calls_le_1: "warning_calls s es \<le> 1"
proof (induction es arbitrary: s)
  case Nil
  then show ?case by simp
next
  case (Cons e es)
  show ?case
  proof (cases "e = Tick \<and> warns s")
    case True
    then have "timeRemaining (step e s) < 30" using tick_warns [of s] by simp
    then have "warning_calls (step e s) es = 0" by (rule warning_calls_below)
    then show ?thesis using True by simp
  next
    case False
    then show ?thesis using Cons.IH [of "step e s"] by auto
  qed
qed

lemma warning_calls_crossing:
  "30 \<le> timeRemaining s \<Longrightarrow> timeRemaining (run s es) < 30 \<Longrightarrow>
     warning_calls s es = 1 \<and> showWarning (run s es)"
proof (induction es arbitrary: s)
  case Nil
  then show ?case by simp
next
  case (Cons e es)
  show ?case
  proof (cases "30 \<le> timeRemaining (step e s)")
    case True
    from Cons.prems(2) have "timeRemaining (run (step e s) es) < 30" by simp
    from Cons.IH [OF True this]
    have ih: "warning_calls (step e s) es = 1" "showWarning (run (step e s) es)" by simp_all
    have "\<not> (e = Tick \<and> warns s)" using tick_warns [of s] True by auto
    then show ?thesis using ih by auto
  next
    case False
    then have below: "timeRemaining (step e s) < 30" by simp
    have e: "e = Tick"
      using below Cons.prems(1) timeRemaining_step_other [of e s] by fastforce
    have t: "timeRemaining (tick s) < 30" using below e by simp
    have w: "warns s" and sw: "showWarning (tick s)"
      using tick_crossing [OF Cons.prems(1) t] by simp_all
    have "warning_calls (step e s) es = 0" using below by (rule warning_calls_below)
    moreover have "showWarning (run (step e s) es)"
      using sw e by (simp add: showWarning_run)
    ultimately show ?thesis using e w by simp
  qed
qed

text \<open>
  Claim C8. Along every run of a session \<open>showWarning\<close>, once true, stays true;
  \<open>setShowWarning(true)\<close> is called at most once; and when the countdown goes
  from 30 or more to less than 30 it is called exactly once and the warning is
  shown from then on.
\<close>

theorem warning_latch:
  "(showWarning s \<longrightarrow> showWarning (run s es))
   \<and> warning_calls s es \<le> 1
   \<and> (30 \<le> timeRemaining s \<and> timeRemaining (run s es) < 30 \<longrightarrow>
        warning_calls s es = 1 \<and> showWarning (run s es))"
  using showWarning_run [of s es] warning_calls_le_1 [of s es] warning_calls_crossing [of s es]
  by blast

lemma countdown_example_run:
  "timeRemaining (run countdown_example [Tick, AnswerSelect ''a'', Tick, NextQuestion, Tick]) = 28"
  "timeRemaining (run countdown_example [Tick, AnswerSelect ''a'', Tick]) = 29"
  "showWarning (run countdown_example [Tick, AnswerSelect ''a'', Tick])"
  "\<not> showWarning (run countdown_example [Tick, AnswerSelect ''a''])"
  "timeRemaining countdown_example = 31"
  by (simp_all add: countdown_example_def initial_state_def step_defs to_quiz_question_def)

text \<open>
  From 31 seconds the warning is not shown after one firing of the interval, is
  shown after the second, and stays.
\<close>

theorem warning_latch_witness:
  "30 \<le> timeRemaining countdown_example
   \<and> timeRemaining (run countdown_example [Tick, AnswerSelect ''a'', Tick, NextQuestion, Tick]) < 30
   \<and> warning_calls countdown_example [Tick, AnswerSelect ''a'', Tick, NextQuestion, Tick] = 1
   \<and> \<not> showWarning (run countdown_example [Tick, AnswerSelect ''a''])
   \<and> showWarning (run countdown_example [Tick, AnswerSelect ''a'', Tick])
   \<and> showWarning (run (run countdown_example [Tick, AnswerSelect ''a'', Tick]) [NextQuestion, Tick])"
  using countdown_example_run
    warning_latch [of countdown_example "[Tick, AnswerSelect ''a'', Tick, NextQuestion, Tick]"]
    warning_latch [of "run countdown_example [Tick, AnswerSelect ''a'', Tick]" "[NextQuestion, Tick]"]
  by simp

subsection \<open>Advancing and submitting\<close>








subsection \<open>Double precision on the score screen\<close>

















text \<open>
  The double computation decides which way a percentage halfway between two
  tenths is rounded: 23 of 80 is 28.75 and prints as 28.7, 11 of 80 is 13.75 and
  prints as 13.8.
\<close>

lemma percentage_examples:
  "toFixed_1 (times_100 (divide_lengths 2 2)) = Num 100"
  "toFixed_1 (times_100 (divide_lengths 2 3)) = Num (667 / 10)"
  "toFixed_1 (times_100 (divide_lengths 23 80)) = Num (287 / 10)"
  "toFixed_1 (times_100 (divide_lengths 11 80)) = Num (138 / 10)"
  by code_simp+



end
